theory Spec2Isabelle
  imports Complex_Main "HOL-Library.AList"
begin

section \<open>The storefront application (application.py)\<close>

text \<open>
  The application is one Python module: three configuration globals read from the
  process environment, a handful of helpers around remote services (parameter store,
  relational database, object storage, queue), a module-level dictionary \<open>cart\<close>, and
  five route handlers. The remote services are not part of the program; they appear
  here as the record \<open>env\<close>, and every remote call that can raise is a function
  into \<open>error + 'a\<close>. The writes of the program (to the cart dictionary, to the bucket,
  to the queue) are collected in the record \<open>state\<close>, which each handler takes and
  returns. What \<open>render_template\<close> receives is kept as the value of the page: the
  templates themselves are not part of the module.
\<close>

subsection \<open>Python values\<close>

text \<open>Truth value of an \<open>Optional[str]\<close>: \<open>None\<close> and the empty string are false.\<close>

definition truthy :: "string option \<Rightarrow> bool" where
  "truthy v = (case v of None \<Rightarrow> False | Some s \<Rightarrow> s \<noteq> [])"

text \<open>
  A \<open>dict\<close> from product id to quantity. Python dictionaries keep insertion order, and
  the order is what \<open>cart.items()\<close> iterates in, so the dictionary is an association list
  with distinct keys: assigning to a key that is present replaces its value in place,
  assigning to a new key appends it. The ids come from the URL converter \<open>int\<close>,
  which matches digits only, so they are natural numbers; quantities are Python ints.
\<close>

type_synonym pydict = "(nat \<times> int) list"

definition dict_get :: "pydict \<Rightarrow> nat \<Rightarrow> int \<Rightarrow> int" where
  "dict_get d k dflt = (case map_of d k of None \<Rightarrow> dflt | Some v \<Rightarrow> v)"

definition dict_setitem :: "pydict \<Rightarrow> nat \<Rightarrow> int \<Rightarrow> pydict" where
  "dict_setitem d k v = AList.update k v d"

definition dict_clear :: "pydict \<Rightarrow> pydict" where
  "dict_clear d = []"

subsection \<open>Errors\<close>

datatype error =
    Exception string
  | ParameterNotFound string
  | OperationalError
  | S3UploadFailedError
  | ClientError string

subsection \<open>CONFIG (lines 13 to 19)\<close>

record config =
  REGION :: string
  BUCKET :: string
  SQS_URL :: "string option"

text \<open>The message of the exception raised at line 19; its first three bytes are the
  UTF-8 encoding of the cross mark U+274C.\<close>

definition missing_bucket_message :: string where
  "missing_bucket_message =
     [CHR 0xE2, CHR 0x9D, CHR 0x8C] @ '' Environment variable S3_BUCKET is missing!''"

text \<open>The URL rules that the \<open>@app.route\<close> decorators register, in the order of the
  module; every one of them comes after line 19.\<close>

definition url_map :: "string list" where
  "url_map = [''/'', ''/product/<int:pid>'', ''/cart'', ''/cart/add/<int:pid>'', ''/checkout'']"

record module =
  globals :: config
  routes :: "string list"

text \<open>Executing the module top to bottom with the process environment \<open>environ\<close>:
  either the exception of line 19 leaves no module object at all, or the globals are
  bound and all routes are registered.\<close>

definition load_module :: "(string \<rightharpoonup> string) \<Rightarrow> error + module" where
  "load_module environ =
     (let region = (case environ ''REGION'' of None \<Rightarrow> ''ap-south-1'' | Some r \<Rightarrow> r);
          bucket = environ ''S3_BUCKET'';
          sqs_url = environ ''SQS_QUEUE_URL''
      in case bucket of
           None \<Rightarrow> Inl (Exception missing_bucket_message)
         | Some b \<Rightarrow>
             if \<not> truthy (Some b) then Inl (Exception missing_bucket_message)
             else Inr \<lparr>globals = \<lparr>REGION = region, BUCKET = b, SQS_URL = sqs_url\<rparr>,
                       routes = url_map\<rparr>)"

text \<open>The routes a client can reach: those of the loaded module, none when loading raised.\<close>

definition reachable_routes :: "(string \<rightharpoonup> string) \<Rightarrow> string list" where
  "reachable_routes environ =
     (case load_module environ of Inl e \<Rightarrow> [] | Inr m \<Rightarrow> routes m)"

subsection \<open>Program state\<close>

text \<open>
  Dictionaries are objects: a variable or a field holds a reference, and two references
  to one object see each other's updates. The store maps addresses to dictionaries; the
  module-level \<open>cart = {}\<close> (line 81) allocates the one dictionary of the program at
  address \<open>cart\<close>. The bucket and the queue are logs of what was written to them:
  \<open>(Bucket, Key, body)\<close> for each upload, \<open>(QueueUrl, MessageBody)\<close> for each message.
\<close>

type_synonym addr = nat

datatype json = JNull | JString string | JNumber int | JObject "(string \<times> json) list"

record state =
  heap :: "addr \<Rightarrow> pydict"
  s3_objects :: "(string \<times> string \<times> string) list"
  sqs_messages :: "(string option \<times> json) list"

definition cart :: addr where
  "cart = 0"

definition initial_state :: state where
  "initial_state = \<lparr>heap = (\<lambda>a. []), s3_objects = [], sqs_messages = []\<rparr>"

subsection \<open>Remote services\<close>

text \<open>Modelled from the spec: the schema of the \<open>products\<close> table is not in the module,
  which reads rows with \<open>SELECT *\<close> and uses the columns \<open>id\<close>, \<open>price\<close> and
  \<open>image_url\<close>. The spec gives a product an integer identifier, a name, a decimal price
  and an optional image key. Decimal arithmetic is exact, so the price is a rational;
  a SQL NULL (or a missing column, which \<open>p.get\<close> treats alike) is \<open>None\<close>.\<close>

record product =
  product_id :: nat
  product_name :: string
  price :: rat
  image_url :: "string option"

datatype os = posix | nt

text \<open>
  What the program's surroundings decide: the module globals, the parameter store, the
  database server (which table a connection with given host, user, password and database
  name sees, if it can be opened), whether the bucket and the queue accept a write, the
  signer of download links (bucket, key, lifetime), and for the filename sanitiser the
  platform and Unicode's NFKD normalisation on code points.
\<close>

record env =
  config :: config
  ssm_parameters :: "string \<rightharpoonup> string"
  db_connect :: "string \<Rightarrow> string \<Rightarrow> string \<Rightarrow> string \<Rightarrow> product list option"
  s3_writable :: bool
  sqs_writable :: bool
  generate_presigned_url :: "string \<Rightarrow> string \<Rightarrow> nat \<Rightarrow> string"
  os_name :: os
  nfkd :: "nat list \<Rightarrow> nat list"

subsection \<open>SSM PARAMETER FETCH, RDS DATABASE, S3 PRESIGNED URLS (lines 36 to 76)\<close>

definition get_parameter :: "env \<Rightarrow> string \<Rightarrow> error + string" where
  "get_parameter env name =
     (case ssm_parameters env name of
        None \<Rightarrow> Inl (ParameterNotFound name)
      | Some v \<Rightarrow> Inr v)"

text \<open>The keyword arguments of \<open>pymysql.connect\<close> are evaluated in order, so the first
  parameter that cannot be fetched decides the error. An open connection is identified
  with the rows of the table it reads.\<close>

definition get_db_connection :: "env \<Rightarrow> error + product list" where
  "get_db_connection env =
     (case get_parameter env ''/ecommerce/db/host'' of
        Inl e \<Rightarrow> Inl e
      | Inr host \<Rightarrow>
     (case get_parameter env ''/ecommerce/db/username'' of
        Inl e \<Rightarrow> Inl e
      | Inr user \<Rightarrow>
     (case get_parameter env ''/ecommerce/db/password'' of
        Inl e \<Rightarrow> Inl e
      | Inr password \<Rightarrow>
     (case get_parameter env ''/ecommerce/db/databasename'' of
        Inl e \<Rightarrow> Inl e
      | Inr database \<Rightarrow>
     (case db_connect env host user password database of
        None \<Rightarrow> Inl OperationalError
      | Some conn \<Rightarrow> Inr conn)))))"

definition get_all_products :: "env \<Rightarrow> error + product list" where
  "get_all_products env =
     (case get_db_connection env of
        Inl e \<Rightarrow> Inl e
      | Inr conn \<Rightarrow> Inr conn)"

text \<open>\<open>fetchone\<close> returns the first row of the result, or \<open>None\<close>.\<close>

definition get_product :: "env \<Rightarrow> nat \<Rightarrow> error + product option" where
  "get_product env pid =
     (case get_db_connection env of
        Inl e \<Rightarrow> Inl e
      | Inr conn \<Rightarrow> Inr (find (\<lambda>row. product_id row = pid) conn))"

definition presigned_get_url :: "env \<Rightarrow> string \<Rightarrow> nat \<Rightarrow> string" where
  "presigned_get_url env key expires =
     generate_presigned_url env (BUCKET (config env)) key expires"

text \<open>\<open>url_for("static", filename=...)\<close> under the default static URL path.\<close>

definition url_for_static :: "string \<Rightarrow> string" where
  "url_for_static filename = ''/static/'' @ filename"

subsection \<open>Pages and responses\<close>

record cart_item =
  product :: product
  qty :: int
  subtotal :: rat

text \<open>The order dictionary built by checkout: its \<open>items\<close> field is a reference.\<close>

record order =
  name :: "string option"
  email :: "string option"
  items :: addr

text \<open>What a template shows of an order: rendering follows the reference and reads
  the dictionary as it is in the store at that moment.\<close>

record shown_order =
  shown_name :: "string option"
  shown_email :: "string option"
  shown_items :: pydict

definition show_order :: "(addr \<Rightarrow> pydict) \<Rightarrow> order \<Rightarrow> shown_order" where
  "show_order h ord =
     \<lparr>shown_name = name ord, shown_email = email ord, shown_items = h (items ord)\<rparr>"

record checkout_context =
  success :: bool
  order_shown :: shown_order
  file_url :: "string option"
  sqs_sent :: bool

datatype page =
    index_html "product list"
  | product_html product
  | cart_html "cart_item list" rat
  | checkout_html "checkout_context option"

datatype response =
    Rendered page
  | Body string nat
  | Redirect string

definition render_template_checkout ::
  "(addr \<Rightarrow> pydict) \<Rightarrow> bool \<Rightarrow> order \<Rightarrow> string option \<Rightarrow> bool \<Rightarrow> response" where
  "render_template_checkout h succ ord url sent =
     Rendered (checkout_html (Some
       \<lparr>success = succ, order_shown = show_order h ord, file_url = url, sqs_sent = sent\<rparr>))"

subsection \<open>ROUTES: listing, detail, cart (lines 87 to 138)\<close>

definition home :: "env \<Rightarrow> error + response" where
  "home env =
     (case get_all_products env of
        Inl e \<Rightarrow> Inl e
      | Inr products \<Rightarrow>
          Inr (Rendered (index_html
            (map (\<lambda>p. if truthy (image_url p)
                       then p\<lparr>image_url :=
                              map_option (\<lambda>key. presigned_get_url env key 3600) (image_url p)\<rparr>
                       else p\<lparr>image_url := Some (url_for_static ''placeholder.png'')\<rparr>)
                 products))))"

definition product_page :: "env \<Rightarrow> nat \<Rightarrow> error + response" where
  "product_page env pid =
     (case get_product env pid of
        Inl e \<Rightarrow> Inl e
      | Inr None \<Rightarrow> Inr (Body ''Product not found'' 404)
      | Inr (Some p) \<Rightarrow>
          Inr (Rendered (product_html
            (if truthy (image_url p)
             then p\<lparr>image_url :=
                    map_option (\<lambda>key. presigned_get_url env key 3600) (image_url p)\<rparr>
             else p\<lparr>image_url := Some (url_for_static ''placeholder.png'')\<rparr>))))"

text \<open>The loop of \<open>view_cart\<close> over \<open>cart.items()\<close>, with the two accumulators
  \<open>items\<close> and \<open>total\<close> (here \<open>its\<close> and \<open>total_acc\<close>). There is no \<open>else\<close> after the test of the image key here.\<close>

fun view_cart_loop ::
  "env \<Rightarrow> pydict \<Rightarrow> cart_item list \<Rightarrow> rat \<Rightarrow> error + (cart_item list \<times> rat)" where
  "view_cart_loop env [] its total_acc = Inr (its, total_acc)"
| "view_cart_loop env ((pid, q) # rest) its total_acc =
     (case get_product env pid of
        Inl e \<Rightarrow> Inl e
      | Inr None \<Rightarrow> view_cart_loop env rest its total_acc
      | Inr (Some p) \<Rightarrow>
          (let p' = (if truthy (image_url p)
                     then p\<lparr>image_url :=
                            map_option (\<lambda>key. presigned_get_url env key 3600) (image_url p)\<rparr>
                     else p);
               sub = price p' * of_int q
           in view_cart_loop env rest
                (its @ [\<lparr>product = p', qty = q, subtotal = sub\<rparr>]) (total_acc + sub)))"

definition view_cart :: "env \<Rightarrow> state \<Rightarrow> error + response" where
  "view_cart env st =
     (case view_cart_loop env (heap st cart) [] 0 of
        Inl e \<Rightarrow> Inl e
      | Inr (its, total_acc) \<Rightarrow> Inr (Rendered (cart_html its total_acc)))"

definition add_to_cart :: "nat \<Rightarrow> state \<Rightarrow> response \<times> state" where
  "add_to_cart pid st =
     (Redirect ''/cart'',
      st\<lparr>heap := (heap st)(cart := dict_setitem (heap st cart) pid
                                      (dict_get (heap st cart) pid 0 + 1))\<rparr>)"

subsection \<open>The filename sanitiser\<close>

text \<open>Modelled from the spec: \<open>secure_filename\<close> is imported from the library
  \<open>werkzeug.utils\<close> and is not in the module. The spec asks for a sanitised version of
  the submitted filename, with path separators and unsafe characters stripped before
  the key is composed. The definitions below follow the library's algorithm step by
  step: NFKD normalisation, dropping what is not ASCII, every path separator of the
  platform replaced by a space, the words joined by underscores, every character
  outside letters, digits, underscore, dot and hyphen deleted, dots and underscores
  stripped from both ends, and on Windows an underscore put before a device name.
  A filename is a Python \<open>str\<close>, a list of code points.\<close>

definition encode_ascii_ignore :: "nat list \<Rightarrow> string" where
  "encode_ascii_ignore cs = map char_of (filter (\<lambda>c. c < 128) cs)"

definition os_sep :: "os \<Rightarrow> char" where
  "os_sep os = (case os of posix \<Rightarrow> CHR ''/'' | nt \<Rightarrow> CHR 0x5C)"

definition os_altsep :: "os \<Rightarrow> char option" where
  "os_altsep os = (case os of posix \<Rightarrow> None | nt \<Rightarrow> Some CHR ''/'')"

definition replace_char :: "char \<Rightarrow> char \<Rightarrow> string \<Rightarrow> string" where
  "replace_char old new s = map (\<lambda>c. if c = old then new else c) s"

definition isspace :: "char \<Rightarrow> bool" where
  "isspace c = (let n = (of_char c :: nat) in (9 \<le> n \<and> n \<le> 13) \<or> (28 \<le> n \<and> n \<le> 32))"

text \<open>\<open>str.split()\<close> without arguments: the maximal runs of characters that are not
  whitespace; \<open>w\<close> is the word being read.\<close>

fun split_ws :: "string \<Rightarrow> string \<Rightarrow> string list" where
  "split_ws [] w = (if w = [] then [] else [w])"
| "split_ws (c # cs) w =
     (if isspace c then (if w = [] then split_ws cs [] else w # split_ws cs [])
      else split_ws cs (w @ [c]))"

fun join :: "string \<Rightarrow> string list \<Rightarrow> string" where
  "join sep [] = []"
| "join sep [w] = w"
| "join sep (w # ws) = w @ sep @ join sep ws"

text \<open>The characters the pattern \<open>[^A-Za-z0-9_.-]\<close> does not match.\<close>

definition filename_ascii :: "char \<Rightarrow> bool" where
  "filename_ascii c =
     (let n = (of_char c :: nat)
      in (65 \<le> n \<and> n \<le> 90) \<or> (97 \<le> n \<and> n \<le> 122) \<or> (48 \<le> n \<and> n \<le> 57)
         \<or> c = CHR ''_'' \<or> c = CHR ''.'' \<or> c = CHR ''-'')"

definition strip :: "string \<Rightarrow> string \<Rightarrow> string" where
  "strip chars s =
     rev (dropWhile (\<lambda>c. c \<in> set chars) (rev (dropWhile (\<lambda>c. c \<in> set chars) s)))"

definition upper :: "string \<Rightarrow> string" where
  "upper s = map (\<lambda>c. let n = (of_char c :: nat)
                      in if 97 \<le> n \<and> n \<le> 122 then char_of (n - 32) else c) s"

definition windows_device_files :: "string list" where
  "windows_device_files =
     [''CON'', ''PRN'', ''AUX'', ''NUL'',
      ''COM0'', ''COM1'', ''COM2'', ''COM3'', ''COM4'',
      ''COM5'', ''COM6'', ''COM7'', ''COM8'', ''COM9'',
      ''LPT0'', ''LPT1'', ''LPT2'', ''LPT3'', ''LPT4'',
      ''LPT5'', ''LPT6'', ''LPT7'', ''LPT8'', ''LPT9'']"

definition secure_filename :: "env \<Rightarrow> nat list \<Rightarrow> string" where
  "secure_filename env filename =
     (let f0 = encode_ascii_ignore (nfkd env filename);
          f1 = replace_char (os_sep (os_name env)) CHR '' '' f0;
          f2 = (case os_altsep (os_name env) of
                  None \<Rightarrow> f1
                | Some sep \<Rightarrow> replace_char sep CHR '' '' f1);
          f3 = strip ''._'' (filter filename_ascii (join ''_'' (split_ws f2 [])))
      in if os_name env = nt \<and> f3 \<noteq> []
            \<and> upper (takeWhile (\<lambda>c. c \<noteq> CHR ''.'') f3) \<in> set windows_device_files
         then CHR ''_'' # f3
         else f3)"

subsection \<open>CHECKOUT (lines 143 to 197)\<close>

record file_storage =
  filename :: "nat list"
  stream :: string

record request =
  request_method :: string
  form :: "string \<rightharpoonup> string"
  files :: "string \<rightharpoonup> file_storage"

text \<open>\<open>json.dumps\<close> of a dictionary writes an integer key as the string of its decimal
  digits. The message body is kept as the JSON document that the text encodes.\<close>

fun str_nat :: "nat \<Rightarrow> string" where
  "str_nat n =
     (if n < 10 then [char_of (48 + n)]
      else str_nat (n div 10) @ [char_of (48 + n mod 10)])"

declare str_nat.simps [simp del]

definition json_of_optional :: "string option \<Rightarrow> json" where
  "json_of_optional v = (case v of None \<Rightarrow> JNull | Some s \<Rightarrow> JString s)"

definition json_of_dict :: "pydict \<Rightarrow> json" where
  "json_of_dict d = JObject (map (\<lambda>(k, v). (str_nat k, JNumber v)) d)"

definition json_dumps :: "(addr \<Rightarrow> pydict) \<Rightarrow> order \<Rightarrow> json" where
  "json_dumps h ord =
     JObject [(''name'', json_of_optional (name ord)),
              (''email'', json_of_optional (email ord)),
              (''items'', json_of_dict (h (items ord)))]"

text \<open>\<open>sqs_client()\<close> (line 31): a client for the region, or \<open>None\<close>.\<close>

definition sqs_client :: "env \<Rightarrow> string option" where
  "sqs_client env =
     (if truthy (SQS_URL (config env)) then Some (REGION (config env)) else None)"

text \<open>Lines 157 to 173: the upload, giving \<open>uploaded_file_url\<close>.\<close>

definition checkout_upload :: "env \<Rightarrow> request \<Rightarrow> state \<Rightarrow> (error + string option) \<times> state" where
  "checkout_upload env request st =
     (case files request ''image'' of
        None \<Rightarrow> (Inr None, st)
      | Some f \<Rightarrow>
          if filename f \<noteq> [] then
            (let fname = secure_filename env (filename f);
                 key = ''uploads/'' @ fname
             in if s3_writable env
                then (Inr (Some (presigned_get_url env key 3600)),
                      st\<lparr>s3_objects := s3_objects st @ [(BUCKET (config env), key, stream f)]\<rparr>)
                else (Inl S3UploadFailedError, st))
          else (Inr None, st))"

text \<open>Lines 178 to 186: the queue message, giving \<open>sqs_sent\<close>.\<close>

definition checkout_send :: "env \<Rightarrow> order \<Rightarrow> state \<Rightarrow> (error + bool) \<times> state" where
  "checkout_send env ord st =
     (case sqs_client env of
        None \<Rightarrow> (Inr False, st)
      | Some sqs \<Rightarrow>
          if sqs_writable env
          then (Inr True,
                st\<lparr>sqs_messages := sqs_messages st
                      @ [(SQS_URL (config env), json_dumps (heap st) ord)]\<rparr>)
          else (Inl (ClientError ''SendMessage''), st))"

definition checkout :: "env \<Rightarrow> request \<Rightarrow> state \<Rightarrow> (error + response) \<times> state" where
  "checkout env request st =
     (if request_method request = ''GET'' then (Inr (Rendered (checkout_html None)), st)
      else
        (let ord = \<lparr>name = form request ''name'', email = form request ''email'',
                    items = cart\<rparr>
         in case checkout_upload env request st of
              (Inl e, st1) \<Rightarrow> (Inl e, st1)
            | (Inr uploaded_file_url, st1) \<Rightarrow>
                (case checkout_send env ord st1 of
                   (Inl e, st2) \<Rightarrow> (Inl e, st2)
                 | (Inr sent, st2) \<Rightarrow>
                     (let st3 = st2\<lparr>heap := (heap st2)(cart := dict_clear (heap st2 cart))\<rparr>
                      in (Inr (render_template_checkout (heap st3) True ord
                                 uploaded_file_url sent),
                          st3)))))"

subsection \<open>Sequences of requests\<close>

text \<open>The operations that write the cart: the add route, \<open>cart.clear()\<close> on its own, and
  a request to the checkout route, each under the surroundings of its moment. A request
  that raises leaves the state as it was when the exception was raised.\<close>

datatype operation = Cart_add nat | Cart_clear | Checkout env request

fun apply_operation :: "operation \<Rightarrow> state \<Rightarrow> state" where
  "apply_operation (Cart_add pid) st = snd (add_to_cart pid st)"
| "apply_operation Cart_clear st = st\<lparr>heap := (heap st)(cart := dict_clear (heap st cart))\<rparr>"
| "apply_operation (Checkout env request) st = snd (checkout env request st)"

fun run :: "operation list \<Rightarrow> state \<Rightarrow> state" where
  "run [] st = st"
| "run (x # xs) st = run xs (apply_operation x st)"

subsection \<open>Notions used to state the properties\<close>

text \<open>The field of a JSON object.\<close>

definition json_field :: "string \<Rightarrow> json \<Rightarrow> json option" where
  "json_field key j = (case j of JObject kvs \<Rightarrow> map_of kvs key | _ \<Rightarrow> None)"

text \<open>The segments of an object key: the pieces between its slashes; \<open>w\<close> is the
  segment being read.\<close>

fun segments :: "string \<Rightarrow> string \<Rightarrow> string list" where
  "segments [] w = [w]"
| "segments (c # cs) w =
     (if c = CHR ''/'' then w # segments cs [] else segments cs (w @ [c]))"

text \<open>A key is inside the upload prefix and free of traversal when it is \<open>uploads/\<close>
  followed by one segment that holds no slash and no backslash and is not a dot
  segment.\<close>

definition safe_upload_key :: "string \<Rightarrow> bool" where
  "safe_upload_key key =
     (take 8 key = ''uploads/''
      \<and> CHR ''/'' \<notin> set (drop 8 key) \<and> CHR 0x5C \<notin> set (drop 8 key)
      \<and> ''..'' \<notin> set (segments key []) \<and> ''.'' \<notin> set (segments key []))"

text \<open>The invariant of the cart: every stored quantity is at least one.\<close>

definition quantities_positive :: "pydict \<Rightarrow> bool" where
  "quantities_positive d = list_all (\<lambda>e. 1 \<le> snd e) d"

subsection \<open>A concrete shop for the examples\<close>

definition example_rows :: "product list" where
  "example_rows =
     [\<lparr>product_id = 1, product_name = ''phone'', price = 5 / 2,
       image_url = Some ''products/phone.jpg''\<rparr>,
      \<lparr>product_id = 7, product_name = ''cup'', price = 3, image_url = None\<rparr>]"

definition example_env :: env where
  "example_env =
     \<lparr>config = \<lparr>REGION = ''ap-south-1'', BUCKET = ''shop'', SQS_URL = Some ''https://queue''\<rparr>,
      ssm_parameters = map_of
        [(''/ecommerce/db/host'', ''db.internal''), (''/ecommerce/db/username'', ''shop''),
         (''/ecommerce/db/password'', ''secret''), (''/ecommerce/db/databasename'', ''ecommerce'')],
      db_connect = (\<lambda>host user password database.
        if host = ''db.internal'' \<and> user = ''shop'' \<and> password = ''secret''
           \<and> database = ''ecommerce''
        then Some example_rows else None),
      s3_writable = True,
      sqs_writable = True,
      generate_presigned_url = (\<lambda>bucket key expires.
        ''https://'' @ bucket @ ''.s3/'' @ key @ ''?signed''),
      os_name = posix,
      nfkd = (\<lambda>cs. cs)\<rparr>"

definition example_env_no_queue :: env where
  "example_env_no_queue =
     example_env\<lparr>config := \<lparr>REGION = ''ap-south-1'', BUCKET = ''shop'', SQS_URL = None\<rparr>\<rparr>"

text \<open>A checkout submission with the attachment named \<open>../../etc/passwd\<close>, and one
  without attachment.\<close>

definition example_request :: request where
  "example_request =
     \<lparr>request_method = ''POST'',
      form = map_of [(''name'', ''Alice''), (''email'', ''alice@example.org'')],
      files = map_of [(''image'', \<lparr>filename = map of_char ''../../etc/passwd'',
                                  stream = ''contents''\<rparr>)]\<rparr>"

definition example_request_no_file :: request where
  "example_request_no_file =
     \<lparr>request_method = ''POST'',
      form = map_of [(''name'', ''Alice''), (''email'', ''alice@example.org'')],
      files = Map.empty\<rparr>"

text \<open>The state after adding product 7 once and product 1 twice: the cart
  \<open>{7: 1, 1: 2}\<close>.\<close>

definition example_state :: state where
  "example_state = run [Cart_add 7, Cart_add 1, Cart_add 1] initial_state"

section \<open>Startup\<close>

lemma missing_bucket_message_names_variable:
  "\<exists>a b. missing_bucket_message = a @ ''S3_BUCKET'' @ b"
  unfolding missing_bucket_message_def
  by (rule exI [of _ "[CHR 0xE2, CHR 0x9D, CHR 0x8C] @ '' Environment variable ''"],
      rule exI [of _ "'' is missing!''"]) simp

text \<open>
  C7. When the environment has no \<open>S3_BUCKET\<close>, loading the module raises the exception
  whose message names the variable, and no route is reachable. When \<open>REGION\<close> is absent
  and the bucket name is there, the region is \<open>ap-south-1\<close>, the module loads and all
  routes are registered.
\<close>

theorem startup_requires_bucket:
  "(environ ''S3_BUCKET'' = None \<longrightarrow>
      load_module environ = Inl (Exception missing_bucket_message)
      \<and> reachable_routes environ = [])
   \<and> (environ ''REGION'' = None \<and> truthy (environ ''S3_BUCKET'') \<longrightarrow>
      (\<exists>m. load_module environ = Inr m \<and> REGION (globals m) = ''ap-south-1''
           \<and> routes m = url_map \<and> reachable_routes environ = url_map))"
  by (auto simp: load_module_def reachable_routes_def truthy_def split: option.splits)

text \<open>C7 at the empty environment, and at an environment that sets only the bucket.\<close>

theorem startup_requires_bucket_witness:
  "load_module Map.empty = Inl (Exception missing_bucket_message)
   \<and> reachable_routes Map.empty = []
   \<and> (\<exists>m. load_module [''S3_BUCKET'' \<mapsto> ''shop''] = Inr m
          \<and> REGION (globals m) = ''ap-south-1'' \<and> routes m = url_map
          \<and> reachable_routes [''S3_BUCKET'' \<mapsto> ''shop''] = url_map)"
  using startup_requires_bucket [of Map.empty]
        startup_requires_bucket [of "[''S3_BUCKET'' \<mapsto> ''shop'']"]
  by (simp add: truthy_def)

section \<open>The cart\<close>

lemma heap_add_to_cart:
  "heap (snd (add_to_cart pid st)) =
     (heap st)(cart := AList.update pid (dict_get (heap st cart) pid 0 + 1) (heap st cart))"
  by (simp add: add_to_cart_def dict_setitem_def)

lemma update_filter_other:
  "filter (\<lambda>e. fst e \<noteq> k) (AList.update k v d) = filter (\<lambda>e. fst e \<noteq> k) d"
  by (induction d) auto

text \<open>
  C10. Adding product \<open>pid\<close> sets its entry to one when it was absent and to one more
  than before otherwise. Every other id looks up what it did before, the entries of the
  other ids are the same list in the same order, and nothing else in the state changes.
\<close>

theorem add_to_cart_frame:
  "map_of (heap (snd (add_to_cart pid st)) cart) pid =
     Some (case map_of (heap st cart) pid of None \<Rightarrow> 1 | Some q \<Rightarrow> q + 1)
   \<and> (\<forall>k. k \<noteq> pid \<longrightarrow>
         map_of (heap (snd (add_to_cart pid st)) cart) k = map_of (heap st cart) k)
   \<and> filter (\<lambda>e. fst e \<noteq> pid) (heap (snd (add_to_cart pid st)) cart) =
       filter (\<lambda>e. fst e \<noteq> pid) (heap st cart)
   \<and> (\<forall>a. a \<noteq> cart \<longrightarrow> heap (snd (add_to_cart pid st)) a = heap st a)
   \<and> s3_objects (snd (add_to_cart pid st)) = s3_objects st
   \<and> sqs_messages (snd (add_to_cart pid st)) = sqs_messages st"
  by (simp add: heap_add_to_cart update_conv' update_filter_other dict_get_def
      split: option.splits) (simp add: add_to_cart_def)

text \<open>C10 on the cart \<open>{3: 4, 7: 1}\<close>: adding 7 gives it quantity 2 and leaves 3 at 4.\<close>

theorem add_to_cart_frame_witness:
  "map_of (heap (snd (add_to_cart 7 (initial_state\<lparr>heap := (\<lambda>a. [(3, 4), (7, 1)])\<rparr>))) cart) 7
     = Some 2
   \<and> (3::nat) \<noteq> 7
   \<and> map_of (heap (snd (add_to_cart 7 (initial_state\<lparr>heap := (\<lambda>a. [(3, 4), (7, 1)])\<rparr>))) cart) 3
     = Some 4"
  using add_to_cart_frame [of 7 "initial_state\<lparr>heap := (\<lambda>a. [(3, 4), (7, 1)])\<rparr>"]
  by (simp add: initial_state_def)

lemma update_absent:
  "map_of d k = None \<Longrightarrow> AList.update k v d = d @ [(k, v)]"
  by (induction d) (auto split: if_splits)

lemma update_last_entry:
  "map_of d k = None \<Longrightarrow> AList.update k w (d @ [(k, v)]) = d @ [(k, w)]"
  by (induction d) (auto split: if_splits)

lemma add_twice_cart:
  "map_of (heap st cart) pid = None \<Longrightarrow>
     heap (snd (add_to_cart pid (snd (add_to_cart pid st)))) cart = heap st cart @ [(pid, 2)]"
  by (simp add: heap_add_to_cart dict_get_def update_absent update_last_entry map_add_def)

subsection \<open>The cart invariant\<close>

lemma quantities_positive_update:
  "quantities_positive d \<Longrightarrow> 1 \<le> v \<Longrightarrow> quantities_positive (AList.update k v d)"
  by (induction d) (auto simp: quantities_positive_def)

lemma dict_get_nonneg:
  "quantities_positive d \<Longrightarrow> 0 \<le> dict_get d k 0"
proof (cases "map_of d k")
  case None
  then show ?thesis by (simp add: dict_get_def)
next
  case (Some v)
  assume inv: "quantities_positive d"
  from Some have "(k, v) \<in> set d" by (rule map_of_SomeD)
  with inv have "1 \<le> v" by (auto simp: quantities_positive_def list_all_iff)
  with Some show ?thesis by (simp add: dict_get_def)
qed

lemma heap_checkout_upload: "heap (snd (checkout_upload env request st)) = heap st"
  by (simp add: checkout_upload_def Let_def split: option.splits)

lemma heap_checkout_send: "heap (snd (checkout_send env ord st)) = heap st"
  by (simp add: checkout_send_def split: option.splits)

text \<open>A checkout request leaves the cart as it was (the form, or an exception before
  line 189) or empties it.\<close>

lemma cart_after_checkout:
  "heap (snd (checkout env request st)) cart = heap st cart
   \<or> heap (snd (checkout env request st)) cart = []"
proof -
  let ?ord = "\<lparr>name = form request ''name'', email = form request ''email'', items = cart\<rparr>"
  obtain r1 st1 where u: "checkout_upload env request st = (r1, st1)"
    by (cases "checkout_upload env request st")
  obtain r2 st2 where s: "checkout_send env ?ord st1 = (r2, st2)"
    by (cases "checkout_send env ?ord st1")
  from u have h1: "heap st1 = heap st"
    using heap_checkout_upload [of env request st] by simp
  from s have h2: "heap st2 = heap st1"
    using heap_checkout_send [of env ?ord st1] by simp
  show ?thesis
    using u s h1 h2
    by (auto simp: checkout_def Let_def dict_clear_def split: sum.splits)
qed

lemma quantities_positive_step:
  "quantities_positive (heap st cart) \<Longrightarrow>
     quantities_positive (heap (apply_operation x st) cart)"
proof (cases x)
  case (Cart_add pid)
  assume inv: "quantities_positive (heap st cart)"
  from inv have "1 \<le> dict_get (heap st cart) pid 0 + 1"
    using dict_get_nonneg [of "heap st cart" pid] by simp
  with inv Cart_add show ?thesis
    by (simp add: heap_add_to_cart quantities_positive_update)
next
  case Cart_clear
  then show ?thesis by (simp add: dict_clear_def quantities_positive_def)
next
  case (Checkout env request)
  assume inv: "quantities_positive (heap st cart)"
  with Checkout show ?thesis
    using cart_after_checkout [of env request st]
    by (auto simp: quantities_positive_def)
qed

lemma quantities_positive_run:
  "quantities_positive (heap st cart) \<Longrightarrow> quantities_positive (heap (run xs st) cart)"
  by (induction xs arbitrary: st) (simp_all add: quantities_positive_step)

text \<open>
  C9. Starting from the empty cart, after any sequence of cart additions, cart clearings
  and checkout requests (whatever their surroundings, and whether they succeed or
  raise), every entry of the cart has a quantity of at least one.
\<close>

theorem cart_quantities_positive:
  "\<forall>(k, q) \<in> set (heap (run xs initial_state) cart). 1 \<le> q"
proof -
  have "quantities_positive (heap initial_state cart)"
    by (simp add: initial_state_def quantities_positive_def)
  then have "quantities_positive (heap (run xs initial_state) cart)"
    by (rule quantities_positive_run)
  then show ?thesis
    by (auto simp: quantities_positive_def list_all_iff)
qed

text \<open>C9 on a run with an addition, a checkout and two more additions: the cart then
  holds product 3 with quantity 2.\<close>

theorem cart_quantities_positive_witness:
  "(3, 2) \<in> set (heap (run [Cart_add 5, Checkout example_env example_request,
                            Cart_add 3, Cart_add 3] initial_state) cart)
   \<and> (1::int) \<le> 2"
  using cart_quantities_positive
    [of "[Cart_add 5, Checkout example_env example_request, Cart_add 3, Cart_add 3]"]
  by code_simp

section \<open>The product page\<close>

lemma get_product_rows:
  "get_db_connection env = Inr rows \<Longrightarrow>
     get_product env pid = Inr (find (\<lambda>row. product_id row = pid) rows)"
  by (simp add: get_product_def)

text \<open>
  C8. When the database can be read: for an id that no row of the products table has,
  the detail route answers with status 404 and the plain text \<open>Product not found\<close>; for
  an id that a row has, it renders the detail page of a row with that id, with the
  row's name and price.
\<close>

theorem product_page_found_or_404:
  assumes db: "get_db_connection env = Inr rows"
  shows "(pid \<notin> product_id ` set rows \<longrightarrow>
            product_page env pid = Inr (Body ''Product not found'' 404))
       \<and> (pid \<in> product_id ` set rows \<longrightarrow>
            (\<exists>p row. product_page env pid = Inr (Rendered (product_html p))
               \<and> row \<in> set rows \<and> product_id row = pid
               \<and> product_id p = pid \<and> product_name p = product_name row
               \<and> price p = price row))"
proof (cases "find (\<lambda>row. product_id row = pid) rows")
  case None
  then have "pid \<notin> product_id ` set rows"
    by (auto simp: find_None_iff)
  with None db show ?thesis
    by (simp add: product_page_def get_product_rows)
next
  case (Some row)
  then have r: "row \<in> set rows" "product_id row = pid"
    by (auto simp: find_Some_iff)
  then have "pid \<in> product_id ` set rows" by auto
  with Some db r show ?thesis
    by (auto simp: product_page_def get_product_rows)
qed

text \<open>C8 in the example shop: id 8 is unknown, id 7 is the cup.\<close>

theorem product_page_found_or_404_witness:
  "get_db_connection example_env = Inr example_rows
   \<and> 8 \<notin> product_id ` set example_rows
   \<and> product_page example_env 8 = Inr (Body ''Product not found'' 404)
   \<and> 7 \<in> product_id ` set example_rows
   \<and> (\<exists>p. product_page example_env 7 = Inr (Rendered (product_html p))
          \<and> product_id p = 7 \<and> product_name p = ''cup'' \<and> price p = 3)"
proof -
  have db: "get_db_connection example_env = Inr example_rows"
    by code_simp
  have absent: "8 \<notin> product_id ` set example_rows"
    by (simp add: example_rows_def)
  have present: "7 \<in> product_id ` set example_rows"
    by (simp add: example_rows_def)
  have row: "\<And>r. r \<in> set example_rows \<Longrightarrow> product_id r = 7 \<Longrightarrow>
               product_name r = ''cup'' \<and> price r = 3"
    by (auto simp: example_rows_def)
  from product_page_found_or_404 [OF db, of 8] absent
  have a: "product_page example_env 8 = Inr (Body ''Product not found'' 404)"
    by simp
  from product_page_found_or_404 [OF db, of 7] present row
  have b: "\<exists>p. product_page example_env 7 = Inr (Rendered (product_html p))
          \<and> product_id p = 7 \<and> product_name p = ''cup'' \<and> price p = 3"
    by metis
  from db absent present a b show ?thesis by simp
qed

section \<open>The cart view\<close>

lemma view_cart_loop_append:
  "view_cart_loop env (d @ e) its tot =
     (case view_cart_loop env d its tot of
        Inl x \<Rightarrow> Inl x
      | Inr (its', tot') \<Rightarrow> view_cart_loop env e its' tot')"
  by (induction d arbitrary: its tot)
     (auto simp: Let_def split: sum.splits option.splits)

lemma view_cart_loop_result:
  "get_db_connection env = Inr rows \<Longrightarrow>
     \<exists>new. view_cart_loop env d its tot =
              Inr (its @ new, tot + sum_list (map subtotal new))
          \<and> (\<forall>it \<in> set new. product_id (product it) \<in> fst ` set d)"
proof (induction d arbitrary: its tot)
  case Nil
  then show ?case by simp
next
  case (Cons e d)
  obtain k q where e: "e = (k, q)" by (cases e)
  show ?case
  proof (cases "find (\<lambda>row. product_id row = k) rows")
    case None
    from Cons.IH [OF Cons.prems, of its tot] obtain new where
      "view_cart_loop env d its tot = Inr (its @ new, tot + sum_list (map subtotal new))"
      "\<forall>it \<in> set new. product_id (product it) \<in> fst ` set d" by blast
    with None e Cons.prems show ?thesis
      by (auto simp: get_product_rows)
  next
    case (Some p)
    then have pk: "product_id p = k" by (auto simp: find_Some_iff)
    let ?p' = "if truthy (image_url p)
               then p\<lparr>image_url := map_option (\<lambda>key. presigned_get_url env key 3600) (image_url p)\<rparr>
               else p"
    let ?it = "\<lparr>product = ?p', qty = q, subtotal = price ?p' * of_int q\<rparr>"
    from Cons.IH [OF Cons.prems, of "its @ [?it]" "tot + subtotal ?it"] obtain new where
      n: "view_cart_loop env d (its @ [?it]) (tot + subtotal ?it) =
            Inr ((its @ [?it]) @ new, (tot + subtotal ?it) + sum_list (map subtotal new))"
      "\<forall>it \<in> set new. product_id (product it) \<in> fst ` set d" by blast
    have "view_cart_loop env (e # d) its tot =
            view_cart_loop env d (its @ [?it]) (tot + subtotal ?it)"
      using Some e Cons.prems by (simp add: get_product_rows Let_def)
    with n pk e show ?thesis
      by (intro exI [of _ "?it # new"]) auto
  qed
qed

text \<open>
  C4. From a cart that does not contain \<open>pid\<close>, two additions of \<open>pid\<close> give the cart
  exactly one entry for it, with quantity 2. If the database can be read and has a row
  \<open>p\<close> for \<open>pid\<close>, the cart view that follows renders a page whose lines include one
  for \<open>pid\<close>, every line for \<open>pid\<close> has quantity 2 and subtotal \<open>price p * 2\<close>, and the
  total is the sum of the subtotals of all lines.
\<close>

theorem add_twice_then_view:
  assumes absent: "map_of (heap st cart) pid = None"
  shows "map_of (heap (snd (add_to_cart pid (snd (add_to_cart pid st)))) cart) pid = Some 2
       \<and> filter (\<lambda>e. fst e = pid) (heap (snd (add_to_cart pid (snd (add_to_cart pid st)))) cart)
           = [(pid, 2)]
       \<and> (\<forall>rows p. get_db_connection env = Inr rows
             \<and> find (\<lambda>row. product_id row = pid) rows = Some p \<longrightarrow>
           (\<exists>its t. view_cart env (snd (add_to_cart pid (snd (add_to_cart pid st))))
                      = Inr (Rendered (cart_html its t))
              \<and> (\<exists>it \<in> set its. product_id (product it) = pid)
              \<and> (\<forall>it \<in> set its. product_id (product it) = pid \<longrightarrow>
                    qty it = 2 \<and> subtotal it = price p * 2)
              \<and> t = sum_list (map subtotal its)))"
proof -
  let ?st2 = "snd (add_to_cart pid (snd (add_to_cart pid st)))"
  have c: "heap ?st2 cart = heap st cart @ [(pid, 2)]"
    using absent by (rule add_twice_cart)
  from absent have notin: "pid \<notin> fst ` set (heap st cart)"
    by (simp add: map_of_eq_None_iff)
  then have f: "filter (\<lambda>e. fst e = pid) (heap st cart) = []"
    by (auto simp: filter_empty_conv)
  have view: "\<exists>its t. view_cart env ?st2 = Inr (Rendered (cart_html its t))
              \<and> (\<exists>it \<in> set its. product_id (product it) = pid)
              \<and> (\<forall>it \<in> set its. product_id (product it) = pid \<longrightarrow>
                    qty it = 2 \<and> subtotal it = price p * 2)
              \<and> t = sum_list (map subtotal its)"
    if db: "get_db_connection env = Inr rows"
      and p: "find (\<lambda>row. product_id row = pid) rows = Some p" for rows p
  proof -
    from view_cart_loop_result [OF db, of "heap st cart" "[]" 0] obtain new where
      n: "view_cart_loop env (heap st cart) [] 0 = Inr (new, sum_list (map subtotal new))"
      and ids: "\<forall>it \<in> set new. product_id (product it) \<in> fst ` set (heap st cart)"
      by auto
    let ?p' = "if truthy (image_url p)
               then p\<lparr>image_url := map_option (\<lambda>key. presigned_get_url env key 3600) (image_url p)\<rparr>
               else p"
    let ?it = "\<lparr>product = ?p', qty = 2, subtotal = price p * 2\<rparr>"
    from p have pk: "product_id p = pid" by (auto simp: find_Some_iff)
    have "view_cart_loop env (heap ?st2 cart) [] 0 =
            Inr (new @ [?it], sum_list (map subtotal new) + price p * 2)"
      using n db p by (simp add: c view_cart_loop_append get_product_rows Let_def)
    then have v: "view_cart env ?st2 =
        Inr (Rendered (cart_html (new @ [?it]) (sum_list (map subtotal new) + price p * 2)))"
      by (simp add: view_cart_def)
    have other: "\<forall>it \<in> set new. product_id (product it) \<noteq> pid"
      using ids notin by auto
    show ?thesis
      using v other pk
      by (intro exI [of _ "new @ [?it]"] exI [of _ "sum_list (map subtotal new) + price p * 2"])
         auto
  qed
  have look: "map_of (heap ?st2 cart) pid = Some 2"
    using absent by (simp add: c map_add_def)
  have one: "filter (\<lambda>e. fst e = pid) (heap ?st2 cart) = [(pid, 2)]"
    by (simp add: c f)
  from look one view show ?thesis
    by blast
qed

text \<open>C4 in the example shop: the phone costs 5/2, added twice to the cart \<open>{7: 1}\<close>.\<close>

theorem add_twice_then_view_witness:
  "map_of (heap (run [Cart_add 7] initial_state) cart) 1 = None
   \<and> map_of (heap example_state cart) 1 = Some 2
   \<and> get_db_connection example_env = Inr example_rows
   \<and> find (\<lambda>row. product_id row = 1) example_rows = Some (hd example_rows)
   \<and> (\<exists>its t. view_cart example_env example_state = Inr (Rendered (cart_html its t))
         \<and> (\<exists>it \<in> set its. product_id (product it) = 1)
         \<and> (\<forall>it \<in> set its. product_id (product it) = 1 \<longrightarrow>
               qty it = 2 \<and> subtotal it = 5)
         \<and> t = sum_list (map subtotal its))"
proof -
  have absent: "map_of (heap (run [Cart_add 7] initial_state) cart) 1 = None"
    by code_simp
  have st: "snd (add_to_cart 1 (snd (add_to_cart 1 (run [Cart_add 7] initial_state))))
              = example_state"
    by (simp add: example_state_def)
  have db: "get_db_connection example_env = Inr example_rows"
    by code_simp
  have row: "find (\<lambda>row. product_id row = 1) example_rows = Some (hd example_rows)"
    by (simp add: example_rows_def)
  have pr: "price (hd example_rows) * 2 = 5"
    by (simp add: example_rows_def)
  note inst = add_twice_then_view [OF absent, of example_env, unfolded st]
  from inst have look: "map_of (heap example_state cart) 1 = Some 2"
    by simp
  from inst db row
  have "\<exists>its t. view_cart example_env example_state = Inr (Rendered (cart_html its t))
         \<and> (\<exists>it \<in> set its. product_id (product it) = 1)
         \<and> (\<forall>it \<in> set its. product_id (product it) = 1 \<longrightarrow>
               qty it = 2 \<and> subtotal it = price (hd example_rows) * 2)
         \<and> t = sum_list (map subtotal its)"
    by blast
  then have "\<exists>its t. view_cart example_env example_state = Inr (Rendered (cart_html its t))
         \<and> (\<exists>it \<in> set its. product_id (product it) = 1)
         \<and> (\<forall>it \<in> set its. product_id (product it) = 1 \<longrightarrow>
               qty it = 2 \<and> subtotal it = 5)
         \<and> t = sum_list (map subtotal its)"
    unfolding pr .
  with absent look db row show ?thesis
    by blast
qed

section \<open>Checkout\<close>

text \<open>
  C5. After a checkout submission that succeeds, whatever the cart held, the cart is
  empty, and a cart view that follows (under any surroundings) renders no lines and the
  total zero.
\<close>

theorem checkout_empties_cart:
  "request_method request = ''POST'' \<Longrightarrow> checkout env request st = (Inr resp, st') \<Longrightarrow>
     heap st' cart = [] \<and> view_cart env' st' = Inr (Rendered (cart_html [] 0))"
proof -
  assume m: "request_method request = ''POST''" and c: "checkout env request st = (Inr resp, st')"
  from m c have "heap st' cart = []"
    by (auto simp: checkout_def Let_def dict_clear_def split: prod.splits sum.splits)
  then show ?thesis by (simp add: view_cart_def)
qed

text \<open>C5 on the example submission with the cart \<open>{7: 1, 1: 2}\<close>.\<close>

theorem checkout_empties_cart_witness:
  "request_method example_request = ''POST''
   \<and> \<not> isl (fst (checkout example_env example_request example_state))
   \<and> heap example_state cart = [(7, 1), (1, 2)]
   \<and> heap (snd (checkout example_env example_request example_state)) cart = []
   \<and> view_cart example_env (snd (checkout example_env example_request example_state))
       = Inr (Rendered (cart_html [] 0))"
proof -
  have post: "request_method example_request = ''POST''"
    by (simp add: example_request_def)
  have ok: "\<not> isl (fst (checkout example_env example_request example_state))"
    by code_simp
  have before: "heap example_state cart = [(7, 1), (1, 2)]"
    by code_simp
  from ok have c: "checkout example_env example_request example_state =
      (Inr (projr (fst (checkout example_env example_request example_state))),
       snd (checkout example_env example_request example_state))"
    by simp
  from checkout_empties_cart [OF post c, of example_env] post ok before
  show ?thesis by simp
qed

lemma checkout_upload_ok:
  "(\<forall>f. files request ''image'' = Some f \<longrightarrow> filename f \<noteq> [] \<longrightarrow> s3_writable env) \<Longrightarrow>
     \<exists>url st1. checkout_upload env request st = (Inr url, st1) \<and> heap st1 = heap st
        \<and> sqs_messages st1 = sqs_messages st"
  by (auto simp: checkout_upload_def Let_def split: option.splits)

text \<open>
  C3. For a checkout submission whose upload, if there is one, is accepted by the bucket:
  when no queue URL is configured, the checkout succeeds, reports the message as not
  sent, and the queue receives nothing; when a queue URL is configured and the queue
  accepts the message, the checkout succeeds, reports the message as sent, the queue
  receives exactly one message, and the \<open>items\<close> field of its body is the cart as it was
  before the cart is emptied.
\<close>

theorem checkout_queue:
  assumes post: "request_method request = ''POST''"
    and upload: "\<forall>f. files request ''image'' = Some f \<longrightarrow> filename f \<noteq> [] \<longrightarrow> s3_writable env"
  shows "(\<not> truthy (SQS_URL (config env)) \<longrightarrow>
            (\<exists>ctx st'. checkout env request st = (Inr (Rendered (checkout_html (Some ctx))), st')
               \<and> success ctx \<and> \<not> sqs_sent ctx \<and> sqs_messages st' = sqs_messages st))
       \<and> (truthy (SQS_URL (config env)) \<and> sqs_writable env \<longrightarrow>
            (\<exists>ctx st' body. checkout env request st = (Inr (Rendered (checkout_html (Some ctx))), st')
               \<and> success ctx \<and> sqs_sent ctx
               \<and> sqs_messages st' = sqs_messages st @ [(SQS_URL (config env), body)]
               \<and> json_field ''items'' body = Some (json_of_dict (heap st cart))
               \<and> heap st' cart = []))"
proof -
  from upload obtain url st1 where
    u: "checkout_upload env request st = (Inr url, st1)" and h: "heap st1 = heap st"
    and q: "sqs_messages st1 = sqs_messages st"
    using checkout_upload_ok [of request env st] by blast
  have "request_method request \<noteq> ''GET''" using post by simp
  with u h q show ?thesis
    by (simp add: checkout_def checkout_send_def sqs_client_def render_template_checkout_def
        json_dumps_def json_field_def dict_clear_def)
qed


text \<open>C3 on the example submission, without and with a queue.\<close>

theorem checkout_queue_witness:
  "request_method example_request = ''POST''
   \<and> \<not> truthy (SQS_URL (config example_env_no_queue))
   \<and> (\<exists>ctx st'. checkout example_env_no_queue example_request example_state
                   = (Inr (Rendered (checkout_html (Some ctx))), st')
         \<and> success ctx \<and> \<not> sqs_sent ctx
         \<and> sqs_messages st' = sqs_messages example_state)
   \<and> truthy (SQS_URL (config example_env)) \<and> sqs_writable example_env
   \<and> (\<exists>ctx st' body. checkout example_env example_request example_state
                   = (Inr (Rendered (checkout_html (Some ctx))), st')
         \<and> success ctx \<and> sqs_sent ctx
         \<and> sqs_messages st' = sqs_messages example_state @ [(Some ''https://queue'', body)]
         \<and> json_field ''items'' body
             = Some (JObject [(''7'', JNumber 1), (''1'', JNumber 2)]))"
proof -
  have post: "request_method example_request = ''POST''"
    by (simp add: example_request_def)
  have up1: "\<forall>f. files example_request ''image'' = Some f \<longrightarrow> filename f \<noteq> []
               \<longrightarrow> s3_writable example_env_no_queue"
    by (simp add: example_env_no_queue_def example_env_def)
  have up2: "\<forall>f. files example_request ''image'' = Some f \<longrightarrow> filename f \<noteq> []
               \<longrightarrow> s3_writable example_env"
    by (simp add: example_env_def)
  have nq: "\<not> truthy (SQS_URL (config example_env_no_queue))"
    by code_simp
  have q: "truthy (SQS_URL (config example_env))" "sqs_writable example_env"
    "SQS_URL (config example_env) = Some ''https://queue''"
    by code_simp+
  have its: "json_of_dict (heap example_state cart)
               = JObject [(''7'', JNumber 1), (''1'', JNumber 2)]"
    by code_simp
  from checkout_queue [OF post up1, of example_state] nq
  have a: "\<exists>ctx st'. checkout example_env_no_queue example_request example_state
                   = (Inr (Rendered (checkout_html (Some ctx))), st')
         \<and> success ctx \<and> \<not> sqs_sent ctx
         \<and> sqs_messages st' = sqs_messages example_state"
    by blast
  from checkout_queue [OF post up2, of example_state] q
  have b: "\<exists>ctx st' body. checkout example_env example_request example_state
                   = (Inr (Rendered (checkout_html (Some ctx))), st')
         \<and> success ctx \<and> sqs_sent ctx
         \<and> sqs_messages st' = sqs_messages example_state @ [(Some ''https://queue'', body)]
         \<and> json_field ''items'' body
             = Some (JObject [(''7'', JNumber 1), (''1'', JNumber 2)])"
    unfolding its by metis
  from post nq q a b show ?thesis by blast
qed

section \<open>The upload key\<close>

lemma set_strip: "set (strip chars s) \<subseteq> set s"
proof
  fix x
  assume "x \<in> set (strip chars s)"
  then have "x \<in> set (dropWhile (\<lambda>c. c \<in> set chars)
                        (rev (dropWhile (\<lambda>c. c \<in> set chars) s)))"
    by (simp add: strip_def)
  then have "x \<in> set (rev (dropWhile (\<lambda>c. c \<in> set chars) s))"
    by (rule set_dropWhileD)
  then have "x \<in> set (dropWhile (\<lambda>c. c \<in> set chars) s)"
    by simp
  then show "x \<in> set s"
    by (rule set_dropWhileD)
qed

lemma last_strip:
  "strip chars s \<noteq> [] \<Longrightarrow> last (strip chars s) \<notin> set chars"
proof -
  let ?t = "dropWhile (\<lambda>c. c \<in> set chars) (rev (dropWhile (\<lambda>c. c \<in> set chars) s))"
  assume "strip chars s \<noteq> []"
  then have ne: "?t \<noteq> []" by (simp add: strip_def)
  then have "hd ?t \<notin> set chars" by (rule hd_dropWhile)
  moreover have "last (strip chars s) = hd ?t"
    using ne by (simp add: strip_def last_rev)
  ultimately show ?thesis by simp
qed

lemma filename_ascii_no_separator:
  "filename_ascii c \<Longrightarrow> c \<noteq> CHR ''/'' \<and> c \<noteq> CHR 0x5C"
  by (auto simp: filename_ascii_def)

text \<open>The sanitised name before the Windows prefix.\<close>

lemma secure_filename_chars:
  "c \<in> set (secure_filename env fname) \<Longrightarrow> filename_ascii c"
proof -
  have "\<And>s. c \<in> set (strip ''._'' (filter filename_ascii s)) \<Longrightarrow> filename_ascii c"
    using set_strip by fastforce
  moreover have "filename_ascii CHR ''_''" by (simp add: filename_ascii_def)
  moreover assume "c \<in> set (secure_filename env fname)"
  ultimately show ?thesis
    by (auto simp: secure_filename_def Let_def split: if_splits option.splits)
qed

lemma secure_filename_last:
  "secure_filename env fname \<noteq> [] \<Longrightarrow> last (secure_filename env fname) \<noteq> CHR ''.''"
proof -
  have "\<And>s. strip ''._'' s \<noteq> [] \<Longrightarrow> last (strip ''._'' s) \<noteq> CHR ''.''"
    using last_strip [of "''._''"] by fastforce
  moreover assume "secure_filename env fname \<noteq> []"
  ultimately show ?thesis
    by (auto simp: secure_filename_def Let_def split: if_splits option.splits)
qed

lemma segments_no_slash:
  "CHR ''/'' \<notin> set s \<Longrightarrow> segments s w = [w @ s]"
  by (induction s arbitrary: w) auto

lemma safe_upload_key_secure_filename:
  "safe_upload_key (''uploads/'' @ secure_filename env fname)"
proof -
  let ?fn = "secure_filename env fname"
  have sep: "CHR ''/'' \<notin> set ?fn" "CHR 0x5C \<notin> set ?fn"
    using secure_filename_chars [of _ env fname] filename_ascii_no_separator by blast+
  have dots: "?fn \<noteq> ''..''" "?fn \<noteq> ''.''"
    using secure_filename_last [of env fname] by auto
  have seg: "segments (''uploads/'' @ ?fn) [] = [''uploads'', ?fn]"
    using sep(1) by (simp add: segments_no_slash)
  have t: "take 8 (''uploads/'' @ ?fn) = ''uploads/''" by simp
  have d: "drop 8 (''uploads/'' @ ?fn) = ?fn" by simp
  show ?thesis
    unfolding safe_upload_key_def t d seg using sep dots by simp
qed

lemma checkout_upload_objects:
  "s3_objects (snd (checkout_upload env request st)) =
     s3_objects st @
       (case files request ''image'' of
          None \<Rightarrow> []
        | Some f \<Rightarrow>
            if filename f \<noteq> [] \<and> s3_writable env
            then [(BUCKET (config env), ''uploads/'' @ secure_filename env (filename f), stream f)]
            else [])"
  by (simp add: checkout_upload_def Let_def split: option.splits)

lemma s3_objects_checkout_send: "s3_objects (snd (checkout_send env ord st)) = s3_objects st"
  by (simp add: checkout_send_def split: option.splits)

lemma checkout_objects:
  "s3_objects (snd (checkout env request st)) =
     (if request_method request = ''GET'' then s3_objects st
      else s3_objects (snd (checkout_upload env request st)))"
proof -
  let ?ord = "\<lparr>name = form request ''name'', email = form request ''email'', items = cart\<rparr>"
  obtain r1 st1 where u: "checkout_upload env request st = (r1, st1)"
    by (cases "checkout_upload env request st")
  obtain r2 st2 where s: "checkout_send env ?ord st1 = (r2, st2)"
    by (cases "checkout_send env ?ord st1")
  from s have "s3_objects st2 = s3_objects st1"
    using s3_objects_checkout_send [of env ?ord st1] by simp
  with u s show ?thesis
    by (auto simp: checkout_def Let_def split: sum.splits)
qed

text \<open>
  C6. A checkout submission with an attached file of any non-empty name, accepted by the
  bucket, writes exactly one object. Its key is \<open>uploads/\<close> followed by the sanitised
  filename; what follows the prefix holds no slash and no backslash, and no segment of
  the key is \<open>.\<close> or \<open>..\<close>.
\<close>

theorem upload_key_safe:
  assumes post: "request_method request = ''POST''"
    and upload: "files request ''image'' = Some f" "filename f \<noteq> []"
    and s3: "s3_writable env"
  shows "\<exists>key. s3_objects (snd (checkout env request st)) =
                  s3_objects st @ [(BUCKET (config env), key, stream f)]
              \<and> key = ''uploads/'' @ secure_filename env (filename f)
              \<and> safe_upload_key key"
proof -
  have "s3_objects (snd (checkout env request st)) =
          s3_objects st @ [(BUCKET (config env),
                            ''uploads/'' @ secure_filename env (filename f), stream f)]"
    using assms by (simp add: checkout_objects checkout_upload_objects)
  then show ?thesis
    using safe_upload_key_secure_filename [of env "filename f"] by blast
qed

text \<open>C6 for the attachment named \<open>../../etc/passwd\<close>: it is stored as
  \<open>uploads/etc_passwd\<close>.\<close>

theorem upload_key_safe_witness:
  "request_method example_request = ''POST''
   \<and> (\<exists>f. files example_request ''image'' = Some f
          \<and> filename f = map of_char ''../../etc/passwd'')
   \<and> s3_writable example_env
   \<and> s3_objects (snd (checkout example_env example_request example_state))
       = [(''shop'', ''uploads/etc_passwd'', ''contents'')]
   \<and> safe_upload_key ''uploads/etc_passwd''"
proof -
  let ?f = "\<lparr>filename = map of_char ''../../etc/passwd'', stream = ''contents''\<rparr>"
  have post: "request_method example_request = ''POST''"
    by (simp add: example_request_def)
  have img: "files example_request ''image'' = Some ?f"
    by (simp add: example_request_def)
  have ne: "filename ?f \<noteq> []" by simp
  have s3: "s3_writable example_env" by (simp add: example_env_def)
  have before: "s3_objects example_state = []" by code_simp
  have bucket: "BUCKET (config example_env) = ''shop''" by (simp add: example_env_def)
  have fn: "''uploads/'' @ secure_filename example_env (filename ?f) = ''uploads/etc_passwd''"
    by code_simp
  have body: "stream ?f = ''contents''" by simp
  from upload_key_safe [OF post img ne s3, of example_state] obtain key where
    k: "s3_objects (snd (checkout example_env example_request example_state)) =
          s3_objects example_state @ [(BUCKET (config example_env), key, stream ?f)]"
       "key = ''uploads/'' @ secure_filename example_env (filename ?f)"
       "safe_upload_key key"
    by blast
  from k(2) have key: "key = ''uploads/etc_passwd''"
    unfolding fn .
  from k(1) have "s3_objects (snd (checkout example_env example_request example_state))
          = [(''shop'', ''uploads/etc_passwd'', ''contents'')]"
    unfolding before bucket key body by simp
  moreover from k(3) have "safe_upload_key ''uploads/etc_passwd''"
    unfolding key .
  moreover have "\<exists>f. files example_request ''image'' = Some f
          \<and> filename f = map of_char ''../../etc/passwd''"
    using img by simp
  ultimately show ?thesis
    using post s3 by blast
qed

section \<open>The confirmation page\<close>

text \<open>The order holds a reference to the cart, and the cart is emptied before the
  confirmation is rendered: the items a confirmation shows are always empty.\<close>

lemma confirmation_items_empty:
  "request_method request \<noteq> ''GET'' \<Longrightarrow>
     checkout env request st = (Inr (Rendered (checkout_html (Some ctx))), st') \<Longrightarrow>
     shown_items (order_shown ctx) = []"
  by (auto simp: checkout_def Let_def render_template_checkout_def show_order_def
        dict_clear_def split: prod.splits sum.splits)

text \<open>
  C1. The claim is that the confirmation page echoes the order with the cart contents
  of the moment of submission. On the example submission without attachment, with the
  cart \<open>{7: 1, 1: 2}\<close>, the checkout succeeds and the page it renders shows the order
  with no items at all, while the message sent to the queue just before holds both
  entries.
\<close>

theorem confirmation_shows_emptied_cart:
  "heap example_state cart = [(7, 1), (1, 2)]
   \<and> fst (checkout example_env example_request_no_file example_state) =
       Inr (Rendered (checkout_html (Some
         \<lparr>success = True,
          order_shown = \<lparr>shown_name = Some ''Alice'',
                          shown_email = Some ''alice@example.org'',
                          shown_items = []\<rparr>,
          file_url = None,
          sqs_sent = True\<rparr>)))
   \<and> sqs_messages (snd (checkout example_env example_request_no_file example_state)) =
       [(Some ''https://queue'',
         JObject [(''name'', JString ''Alice''), (''email'', JString ''alice@example.org''),
                  (''items'', JObject [(''7'', JNumber 1), (''1'', JNumber 2)])])]"
  by code_simp

section \<open>Placeholder images\<close>

text \<open>The listing and the detail page put the placeholder where a row has no image
  key.\<close>

lemma home_placeholder:
  "get_db_connection env = Inr rows \<Longrightarrow>
     \<exists>ps. home env = Inr (Rendered (index_html ps)) \<and> length ps = length rows
        \<and> (\<forall>i < length rows. \<not> truthy (image_url (rows ! i)) \<longrightarrow>
              image_url (ps ! i) = Some ''/static/placeholder.png'')"
  by (simp add: home_def get_all_products_def url_for_static_def)

lemma product_page_placeholder:
  "get_db_connection env = Inr rows \<Longrightarrow>
   find (\<lambda>row. product_id row = pid) rows = Some p \<Longrightarrow> \<not> truthy (image_url p) \<Longrightarrow>
     \<exists>p'. product_page env pid = Inr (Rendered (product_html p'))
        \<and> image_url p' = Some ''/static/placeholder.png''"
  by (simp add: product_page_def get_product_def url_for_static_def)

text \<open>
  C2. The claim is that every page showing a product without image key shows the
  placeholder, the cart view included. In the example shop the cup has no image key:
  with the cup in the cart, the cart view renders its line with the image still absent,
  where the detail page of the same product shows \<open>/static/placeholder.png\<close>.
\<close>

theorem cart_view_without_placeholder:
  "view_cart example_env (run [Cart_add 7] initial_state) =
     Inr (Rendered (cart_html
       [\<lparr>product = \<lparr>product_id = 7, product_name = ''cup'', price = 3, image_url = None\<rparr>,
         qty = 1, subtotal = 3\<rparr>] 3))
   \<and> product_page example_env 7 =
     Inr (Rendered (product_html
       \<lparr>product_id = 7, product_name = ''cup'', price = 3,
        image_url = Some ''/static/placeholder.png''\<rparr>))"
  by code_simp

end
